theory Spec2Isabelle
  imports Main "HOL-Library.Sublist"
begin

section \<open>The connection guardian of pkg/driver.go\<close>

text \<open>
  The package wraps one handle of the neo4j client library
  (\<^verbatim>\<open>neo4j.DriverWithContext\<close>) in a \<^verbatim>\<open>Driver\<close> struct, runs queries through it
  and rebuilds the handle when a query reports a connectivity failure.

  The embedding follows one call running alone: every call on the client library is
  appended, with what it returned, to a log, and the \<^verbatim>\<open>*Driver\<close> receiver is a record
  passed in and returned updated. The two package-level locks (\<^verbatim>\<open>accessLock\<close>,
  \<^verbatim>\<open>recoveryLock\<close>) are always free for a call running alone, so they leave no trace
  in the model.
\<close>

subsection \<open>Values of the client library\<close>

text \<open>
  A handle and a session are references; an \<^verbatim>\<open>error\<close> is the message its
  \<^verbatim>\<open>Error()\<close> method gives, \<open>None\<close> being the nil error. The parameter map of a query
  and the result cursor are opaque (\<open>'p\<close> and \<open>'r\<close>).
\<close>

type_synonym handle = nat
type_synonym session = nat
type_synonym error = string

text \<open>
  A call either returns or panics. The only panic of the package's own code is the
  call of a method on a nil \<^verbatim>\<open>d.driver\<close>.
\<close>

datatype 'a outcome = Returns 'a | Panics string

definition nil_dereference :: string where
  "nil_dereference = ''runtime error: invalid memory address or nil pointer dereference''"

text \<open>
  What a result hook (\<^verbatim>\<open>ResultsHookFn\<close>) does with a cursor: it returns an error
  (possibly nil) or it panics with a value of type \<^verbatim>\<open>interface{}\<close>. The panic value is
  \<open>None\<close> for \<^verbatim>\<open>panic(nil)\<close> and otherwise \<open>Some v\<close>, \<open>v\<close> being the text that the
  verb \<^verbatim>\<open>%v\<close> prints for it.
\<close>

datatype hook_outcome = HookReturns "error option" | HookPanics "string option"

type_synonym 'r ResultsHookFn = "'r \<Rightarrow> hook_outcome"

datatype ('p, 'r) event =
    NewDriverWithContextEv string string string "error + handle"
  | NewSessionEv handle session
  | RunEv session string 'p "error + 'r"
  | SessionCloseEv session
  | VerifyConnectivityEv handle "error option"
  | DriverCloseEv handle
  | OnResultsEv 'r hook_outcome

type_synonym ('p, 'r) log = "('p, 'r) event list"

text \<open>
  The client library is not part of the package; it is a parameter. Each of its
  operations may answer according to everything that has happened so far, that is,
  according to the log. \<open>stack\<close> is the text of \<^verbatim>\<open>debug.Stack()\<close>.
\<close>

record ('p, 'r) neo4j =
  newDriverWithContext :: "('p, 'r) log \<Rightarrow> string \<Rightarrow> string \<Rightarrow> string \<Rightarrow> error + handle"
  newSession :: "('p, 'r) log \<Rightarrow> handle \<Rightarrow> session"
  run :: "('p, 'r) log \<Rightarrow> session \<Rightarrow> string \<Rightarrow> 'p \<Rightarrow> error + 'r"
  verifyConnectivity :: "('p, 'r) log \<Rightarrow> handle \<Rightarrow> error option"
  stack :: "('p, 'r) log \<Rightarrow> string"

subsection \<open>The structs\<close>

record Driver =
  driver :: "handle option"
  dbURI :: string
  user :: string
  password :: string

record Settings =
  ConnectionString :: string
  User :: string
  Password :: string

subsection \<open>The functions of driver.go\<close>

text \<open>
  \<^verbatim>\<open>executeHook\<close>: the deferred function recovers a panic of the hook. The module is
  built as \<^verbatim>\<open>go 1.19\<close> (go.mod), where \<^verbatim>\<open>recover()\<close> gives nil after \<^verbatim>\<open>panic(nil)\<close>;
  the test \<^verbatim>\<open>r != nil\<close> then fails and the named result \<^verbatim>\<open>err\<close>, never assigned, is
  returned as nil.
\<close>

definition executeHook ::
  "('p, 'r) neo4j \<Rightarrow> ('p, 'r) log \<Rightarrow> 'r ResultsHookFn \<Rightarrow> 'r \<Rightarrow> error option \<times> ('p, 'r) log" where
  "executeHook L w onResults result =
     (let w' = w @ [OnResultsEv result (onResults result)] in
      case onResults result of
        HookReturns err \<Rightarrow> (err, w')
      | HookPanics r \<Rightarrow>
          (case r of
             None \<Rightarrow> (None, w')
           | Some v \<Rightarrow>
               (Some (''[neo4j onResults] recovered from panic: '' @ v
                        @ [CHR 0x0A, CHR 0x0A] @ stack L w'), w')))"

definition NewDriver ::
  "('p, 'r) neo4j \<Rightarrow> ('p, 'r) log \<Rightarrow> Settings \<Rightarrow> (error + Driver) \<times> ('p, 'r) log" where
  "NewDriver L w settings =
     (let res = newDriverWithContext L w (ConnectionString settings) (User settings)
                  (Password settings);
          w' = w @ [NewDriverWithContextEv (ConnectionString settings) (User settings)
                      (Password settings) res] in
      case res of
        Inl err \<Rightarrow> (Inl err, w')
      | Inr h \<Rightarrow>
          (Inr \<lparr>driver = Some h, dbURI = ConnectionString settings, user = User settings,
                password = Password settings\<rparr>, w'))"

text \<open>\<^verbatim>\<open>NewSession\<close> always returns a nil error next to the session.\<close>

definition NewSession ::
  "('p, 'r) neo4j \<Rightarrow> ('p, 'r) log \<Rightarrow> Driver \<Rightarrow> (session \<times> error option) outcome \<times> ('p, 'r) log" where
  "NewSession L w d =
     (case driver d of
        None \<Rightarrow> (Panics nil_dereference, w)
      | Some h \<Rightarrow> (Returns (newSession L w h, None), w @ [NewSessionEv h (newSession L w h)]))"

definition CloseSession :: "('p, 'r) log \<Rightarrow> session \<Rightarrow> ('p, 'r) log" where
  "CloseSession w s = w @ [SessionCloseEv s]"

text \<open>\<^verbatim>\<open>nonblockClose\<close> drops the error that \<^verbatim>\<open>d.driver.Close\<close> returns.\<close>

definition nonblockClose :: "('p, 'r) log \<Rightarrow> Driver \<Rightarrow> ('p, 'r) log \<times> Driver" where
  "nonblockClose w d =
     (case driver d of
        None \<Rightarrow> (w, d)
      | Some h \<Rightarrow> (w @ [DriverCloseEv h], d))"

text \<open>\<^verbatim>\<open>Close\<close> is \<^verbatim>\<open>nonblockClose\<close> under the write side of \<^verbatim>\<open>accessLock\<close>.\<close>

definition Close :: "('p, 'r) log \<Rightarrow> Driver \<Rightarrow> ('p, 'r) log \<times> Driver" where
  "Close w d = nonblockClose w d"

definition reconnect ::
  "('p, 'r) neo4j \<Rightarrow> ('p, 'r) log \<Rightarrow> Driver \<Rightarrow> error option outcome \<times> ('p, 'r) log \<times> Driver" where
  "reconnect L w d =
     (case driver d of
        None \<Rightarrow> (Panics nil_dereference, w, d)
      | Some h \<Rightarrow>
          (let w1 = w @ [VerifyConnectivityEv h (verifyConnectivity L w h)] in
           case verifyConnectivity L w h of
             None \<Rightarrow> (Returns None, w1, d)
           | Some _ \<Rightarrow>
               (case NewDriver L w1
                       \<lparr>ConnectionString = dbURI d, User = user d, Password = password d\<rparr> of
                  (Inl err, w2) \<Rightarrow> (Returns (Some err), w2, d)
                | (Inr nd, w2) \<Rightarrow>
                    (case nonblockClose w2 d of
                       (w3, d') \<Rightarrow> (Returns None, w3, d'\<lparr>driver := driver nd\<rparr>)))))"

text \<open>
  \<^verbatim>\<open>nonblockExecuteQuery\<close> calls itself after a reconnection, with no bound on the
  number of rounds: the value \<open>None\<close> stands for a call that never returns. The deferred
  \<^verbatim>\<open>CloseSession\<close> runs when the frame is left, after the value to return is known.
\<close>

partial_function (option) nonblockExecuteQuery ::
  "('p, 'r) neo4j \<Rightarrow> ('p, 'r) log \<Rightarrow> Driver \<Rightarrow> string \<Rightarrow> 'p \<Rightarrow> 'r ResultsHookFn
     \<Rightarrow> (error option outcome \<times> ('p, 'r) log \<times> Driver) option" where
  "nonblockExecuteQuery L w d query params onResults =
     (case NewSession L w d of
        (Panics m, w1) \<Rightarrow> Some (Panics m, w1, d)
      | (Returns (session, Some err), w1) \<Rightarrow> Some (Returns (Some err), w1, d)
      | (Returns (session, None), w1) \<Rightarrow>
          (case run L w1 session query params of
             Inl err \<Rightarrow>
               (let w2 = w1 @ [RunEv session query params (Inl err)] in
                if err = ''Trying to create session on closed driver''
                   \<or> prefix ''ConnectivityError'' err
                then
                  (case reconnect L w2 d of
                     (Panics m, w3, d') \<Rightarrow> Some (Panics m, CloseSession w3 session, d')
                   | (Returns (Some err'), w3, d') \<Rightarrow>
                       Some (Returns (Some err'), CloseSession w3 session, d')
                   | (Returns None, w3, d') \<Rightarrow>
                       Option.bind (nonblockExecuteQuery L w3 d' query params onResults)
                         (\<lambda>(r, w4, d''). Some (r, CloseSession w4 session, d'')))
                else Some (Returns (Some err), CloseSession w2 session, d))
           | Inr result \<Rightarrow>
               (case executeHook L (w1 @ [RunEv session query params (Inr result)])
                       onResults result of
                  (err, w3) \<Rightarrow> Some (Returns err, CloseSession w3 session, d))))"

text \<open>
  \<^verbatim>\<open>ExecuteQuery\<close> is \<^verbatim>\<open>nonblockExecuteQuery\<close> under the read side of \<^verbatim>\<open>accessLock\<close>.
\<close>

definition ExecuteQuery ::
  "('p, 'r) neo4j \<Rightarrow> ('p, 'r) log \<Rightarrow> Driver \<Rightarrow> string \<Rightarrow> 'p \<Rightarrow> 'r ResultsHookFn
     \<Rightarrow> (error option outcome \<times> ('p, 'r) log \<times> Driver) option" where
  "ExecuteQuery L w d query params onResults =
     nonblockExecuteQuery L w d query params onResults"

subsection \<open>Reading the log\<close>

text \<open>
  \<open>open_sessions\<close> replays a log against the stack of sessions that are open: a new
  session is pushed, \<^verbatim>\<open>session.Close\<close> must close the session opened last and pops it.
  The result is the stack at the end, or \<open>None\<close> when a close does not match.
\<close>

fun open_sessions :: "session list \<Rightarrow> ('p, 'r) log \<Rightarrow> session list option" where
  "open_sessions stk [] = Some stk"
| "open_sessions stk (NewSessionEv h s # es) = open_sessions (s # stk) es"
| "open_sessions stk (SessionCloseEv s # es) =
     (case stk of
        [] \<Rightarrow> None
      | t # stk' \<Rightarrow> if t = s then open_sessions stk' es else None)"
| "open_sessions stk (NewDriverWithContextEv uri usr pw res # es) = open_sessions stk es"
| "open_sessions stk (RunEv s q p res # es) = open_sessions stk es"
| "open_sessions stk (VerifyConnectivityEv h res # es) = open_sessions stk es"
| "open_sessions stk (DriverCloseEv h # es) = open_sessions stk es"
| "open_sessions stk (OnResultsEv r res # es) = open_sessions stk es"

fun is_construction :: "('p, 'r) event \<Rightarrow> bool" where
  "is_construction (NewDriverWithContextEv uri usr pw res) = True"
| "is_construction (NewSessionEv h s) = False"
| "is_construction (RunEv s q p res) = False"
| "is_construction (SessionCloseEv s) = False"
| "is_construction (VerifyConnectivityEv h res) = False"
| "is_construction (DriverCloseEv h) = False"
| "is_construction (OnResultsEv r res) = False"

fun is_new_session :: "('p, 'r) event \<Rightarrow> bool" where
  "is_new_session (NewDriverWithContextEv uri usr pw res) = False"
| "is_new_session (NewSessionEv h s) = True"
| "is_new_session (RunEv s q p res) = False"
| "is_new_session (SessionCloseEv s) = False"
| "is_new_session (VerifyConnectivityEv h res) = False"
| "is_new_session (DriverCloseEv h) = False"
| "is_new_session (OnResultsEv r res) = False"

fun is_run :: "('p, 'r) event \<Rightarrow> bool" where
  "is_run (NewDriverWithContextEv uri usr pw res) = False"
| "is_run (NewSessionEv h s) = False"
| "is_run (RunEv s q p res) = True"
| "is_run (SessionCloseEv s) = False"
| "is_run (VerifyConnectivityEv h res) = False"
| "is_run (DriverCloseEv h) = False"
| "is_run (OnResultsEv r res) = False"

text \<open>\<^verbatim>\<open>VerifyConnectivity\<close> is called by \<^verbatim>\<open>reconnect\<close> only, once per call.\<close>

fun is_verify :: "('p, 'r) event \<Rightarrow> bool" where
  "is_verify (NewDriverWithContextEv uri usr pw res) = False"
| "is_verify (NewSessionEv h s) = False"
| "is_verify (RunEv s q p res) = False"
| "is_verify (SessionCloseEv s) = False"
| "is_verify (VerifyConnectivityEv h res) = True"
| "is_verify (DriverCloseEv h) = False"
| "is_verify (OnResultsEv r res) = False"

definition constructions :: "('p, 'r) log \<Rightarrow> nat" where
  "constructions w = length (filter is_construction w)"

definition reconnects :: "('p, 'r) log \<Rightarrow> nat" where
  "reconnects w = length (filter is_verify w)"

definition runs :: "('p, 'r) log \<Rightarrow> nat" where
  "runs w = length (filter is_run w)"

text \<open>
  The positions in a log of the closes of a session and of the calls of the hook;
  \<open>closed_before_hook s w\<close> holds when session \<open>s\<close> is closed in \<open>w\<close> ahead of the first
  call of the hook.
\<close>

fun closed_before_hook :: "session \<Rightarrow> ('p, 'r) log \<Rightarrow> bool" where
  "closed_before_hook s [] = False"
| "closed_before_hook s (SessionCloseEv t # es) = (t = s \<or> closed_before_hook s es)"
| "closed_before_hook s (OnResultsEv r res # es) = False"
| "closed_before_hook s (NewDriverWithContextEv uri usr pw res # es) = closed_before_hook s es"
| "closed_before_hook s (NewSessionEv h t # es) = closed_before_hook s es"
| "closed_before_hook s (RunEv t q p res # es) = closed_before_hook s es"
| "closed_before_hook s (VerifyConnectivityEv h res # es) = closed_before_hook s es"
| "closed_before_hook s (DriverCloseEv h # es) = closed_before_hook s es"

subsection \<open>A client library that follows a script\<close>

text \<open>
  For concrete runs: the library answers the \<open>n\<close>-th \<^verbatim>\<open>Run\<close>, the \<open>n\<close>-th
  \<^verbatim>\<open>VerifyConnectivity\<close> and the \<open>n\<close>-th construction with the \<open>n\<close>-th entry of a list
  (and with an error once the list is used up), and numbers the sessions in the order
  of their creation.
\<close>

definition answer :: "'a \<Rightarrow> 'a list \<Rightarrow> nat \<Rightarrow> 'a" where
  "answer dflt xs n = (if n < length xs then xs ! n else dflt)"

definition scripted ::
  "(error + 'r) list \<Rightarrow> error option list \<Rightarrow> (error + handle) list \<Rightarrow> ('p, 'r) neo4j" where
  "scripted rs vs cs =
     \<lparr>newDriverWithContext = (\<lambda>w uri usr pw. answer (Inl ''script ended'') cs (constructions w)),
      newSession = (\<lambda>w h. length (filter is_new_session w)),
      run = (\<lambda>w s q p. answer (Inl ''script ended'') rs (runs w)),
      verifyConnectivity = (\<lambda>w h. answer (Some ''script ended'') vs (reconnects w)),
      stack = (\<lambda>w. ''goroutine 1 [running]:'')\<rparr>"

definition guardian :: "handle \<Rightarrow> Driver" where
  "guardian h = \<lparr>driver = Some h, dbURI = ''neo4j://localhost'', user = ''neo4j'',
                 password = ''letmein!''\<rparr>"

text \<open>The scripts and hooks of the concrete runs below.\<close>

definition healthy :: "(unit, nat) neo4j" where
  "healthy = scripted [Inr 7] [] []"

definition flaky :: "(unit, nat) neo4j" where
  "flaky = scripted [Inl ''ConnectivityError: connection reset'', Inr 7] [None] []"

definition broken :: "(unit, nat) neo4j" where
  "broken = scripted [Inl ''ConnectivityError: connection reset'', Inr 7]
              [Some ''ConnectivityError: connection reset''] [Inr 1]"

definition unreachable :: "(unit, nat) neo4j" where
  "unreachable = scripted [Inl ''ConnectivityError: connection reset'']
                   [Some ''ConnectivityError: connection reset''] [Inl ''bad address'']"

definition rejecting :: "(unit, nat) neo4j" where
  "rejecting = scripted [Inl ''Neo.ClientError.Statement.SyntaxError''] [] []"

definition closing :: "(unit, nat) neo4j" where
  "closing = scripted [Inl ''Trying to create session on closed driver'', Inr 7]
               [Some ''Trying to create session on closed driver''] [Inr 0, Inr 1]"

definition accepting :: "nat ResultsHookFn" where
  "accepting r = HookReturns None"

definition panicking_nil :: "nat ResultsHookFn" where
  "panicking_nil r = HookPanics None"

definition panicking :: "nat ResultsHookFn" where
  "panicking r = HookPanics (Some ''index out of range'')"

text \<open>
  A stretch of log is balanced when replaying it gives back the stack of open sessions
  it started from, whatever that stack is: every session it opens, it closes.
\<close>

definition sessions_balanced :: "('p, 'r) log \<Rightarrow> bool" where
  "sessions_balanced delta = (\<forall>stk. open_sessions stk delta = Some stk)"

section \<open>Properties\<close>

lemmas script_defs =
  scripted_def answer_def runs_def reconnects_def constructions_def guardian_def
  healthy_def flaky_def broken_def unreachable_def rejecting_def closing_def

subsection \<open>One step of each function\<close>

lemma reconnect_rebuilt:
  assumes "driver d = Some h"
    and "verifyConnectivity L w h = Some e"
    and "newDriverWithContext L (w @ [VerifyConnectivityEv h (Some e)])
           (dbURI d) (user d) (password d) = Inr hn"
  shows "reconnect L w d =
     (Returns None,
      w @ [VerifyConnectivityEv h (Some e),
           NewDriverWithContextEv (dbURI d) (user d) (password d) (Inr hn),
           DriverCloseEv h],
      d\<lparr>driver := Some hn\<rparr>)"
  using assms by (simp add: reconnect_def NewDriver_def nonblockClose_def)

lemma reconnect_log_verify:
  assumes "driver d = Some h" and "reconnect L w d = (r, wr, dr)"
  shows "\<exists>rest. wr = w @ VerifyConnectivityEv h (verifyConnectivity L w h) # rest"
  using assms
  by (auto simp: reconnect_def NewDriver_def nonblockClose_def Let_def
      split: option.splits sum.splits)

lemma reconnect_outcome:
  assumes "driver d \<noteq> None" and "reconnect L w d = (r, wr, dr)"
  shows "(\<exists>e. r = Returns e) \<and> driver dr \<noteq> None"
  using assms
  by (auto simp: reconnect_def NewDriver_def nonblockClose_def Let_def
      split: option.splits sum.splits)

lemma reconnect_nil_log:
  assumes "driver d = Some h" and "reconnect L w d = (Returns None, wr, dr)"
  shows "\<exists>delta. wr = w @ delta \<and> reconnects delta = 1 \<and> runs delta = 0
           \<and> constructions delta = (if verifyConnectivity L w h = None then 0 else 1)"
  using assms
  by (auto simp: reconnect_def NewDriver_def nonblockClose_def Let_def
        reconnects_def runs_def constructions_def
      split: option.splits sum.splits)

lemma nonblock_run_error:
  assumes "driver d = Some h"
    and "s = newSession L w h"
    and "run L (w @ [NewSessionEv h s]) s q p = Inl e"
  shows "nonblockExecuteQuery L w d q p hook =
     (if e = ''Trying to create session on closed driver'' \<or> prefix ''ConnectivityError'' e
      then (case reconnect L (w @ [NewSessionEv h s, RunEv s q p (Inl e)]) d of
              (Returns None, wr, dr) \<Rightarrow>
                 Option.bind (nonblockExecuteQuery L wr dr q p hook)
                   (\<lambda>(r, we, de). Some (r, we @ [SessionCloseEv s], de))
            | (Returns (Some e'), wr, dr) \<Rightarrow>
                 Some (Returns (Some e'), wr @ [SessionCloseEv s], dr)
            | (Panics m, wr, dr) \<Rightarrow> Some (Panics m, wr @ [SessionCloseEv s], dr))
      else Some (Returns (Some e),
                 w @ [NewSessionEv h s, RunEv s q p (Inl e), SessionCloseEv s], d))"
  using assms(1,3) unfolding assms(2)
  by (subst nonblockExecuteQuery.simps[unfolded CloseSession_def]) (simp add: NewSession_def)

lemma nonblock_run_ok:
  assumes "driver d = Some h"
    and "s = newSession L w h"
    and "run L (w @ [NewSessionEv h s]) s q p = Inr res"
  shows "nonblockExecuteQuery L w d q p hook =
     Some (Returns (fst (executeHook L (w @ [NewSessionEv h s, RunEv s q p (Inr res)])
                           hook res)),
           w @ [NewSessionEv h s, RunEv s q p (Inr res), OnResultsEv res (hook res),
                SessionCloseEv s], d)"
  using assms(1,3) unfolding assms(2)
  by (subst nonblockExecuteQuery.simps[unfolded CloseSession_def])
     (simp add: NewSession_def executeHook_def Let_def
       split: prod.splits hook_outcome.splits option.splits)

lemma nonblock_retry:
  assumes "driver d = Some h"
    and "s = newSession L w h"
    and "run L (w @ [NewSessionEv h s]) s q p = Inl e"
    and "e = ''Trying to create session on closed driver'' \<or> prefix ''ConnectivityError'' e"
    and "reconnect L (w @ [NewSessionEv h s, RunEv s q p (Inl e)]) d = (Returns None, wr, dr)"
    and "driver dr = Some hn"
    and "t = newSession L wr hn"
    and "run L (wr @ [NewSessionEv hn t]) t q p = Inr res"
  shows "nonblockExecuteQuery L w d q p hook =
    Some (Returns (fst (executeHook L (wr @ [NewSessionEv hn t, RunEv t q p (Inr res)])
                          hook res)),
          wr @ [NewSessionEv hn t, RunEv t q p (Inr res), OnResultsEv res (hook res),
                SessionCloseEv t, SessionCloseEv s], dr)"
proof -
  have inner: "nonblockExecuteQuery L wr dr q p hook =
    Some (Returns (fst (executeHook L (wr @ [NewSessionEv hn t, RunEv t q p (Inr res)])
                          hook res)),
          wr @ [NewSessionEv hn t, RunEv t q p (Inr res), OnResultsEv res (hook res),
                SessionCloseEv t], dr)"
    using nonblock_run_ok[of dr hn t L wr q p res hook] assms(6,7,8) by simp
  show ?thesis
    using nonblock_run_error[of d h s L w q p e hook] assms(1-5) inner by simp
qed

text \<open>The retry after a rebuilt handle, on a query that then succeeds.\<close>

lemma nonblock_rebuild_retry:
  assumes "driver d = Some h"
    and "s = newSession L w h"
    and "run L (w @ [NewSessionEv h s]) s q p = Inl e"
    and "e = ''Trying to create session on closed driver'' \<or> prefix ''ConnectivityError'' e"
    and "verifyConnectivity L (w @ [NewSessionEv h s, RunEv s q p (Inl e)]) h = Some ev"
    and "newDriverWithContext L
           (w @ [NewSessionEv h s, RunEv s q p (Inl e), VerifyConnectivityEv h (Some ev)])
           (dbURI d) (user d) (password d) = Inr hn"
    and "wr = w @ [NewSessionEv h s, RunEv s q p (Inl e), VerifyConnectivityEv h (Some ev),
                   NewDriverWithContextEv (dbURI d) (user d) (password d) (Inr hn),
                   DriverCloseEv h]"
    and "t = newSession L wr hn"
    and "run L (wr @ [NewSessionEv hn t]) t q p = Inr res"
  shows "nonblockExecuteQuery L w d q p hook =
    Some (Returns (fst (executeHook L (wr @ [NewSessionEv hn t, RunEv t q p (Inr res)])
                          hook res)),
          wr @ [NewSessionEv hn t, RunEv t q p (Inr res), OnResultsEv res (hook res),
                SessionCloseEv t, SessionCloseEv s], d\<lparr>driver := Some hn\<rparr>)"
proof -
  have rc: "reconnect L (w @ [NewSessionEv h s, RunEv s q p (Inl e)]) d =
              (Returns None, wr, d\<lparr>driver := Some hn\<rparr>)"
    using reconnect_rebuilt[OF assms(1) assms(5)] assms(6,7) by simp
  have dn: "driver (d\<lparr>driver := Some hn\<rparr>) = Some hn" by simp
  show ?thesis
    by (rule nonblock_retry[OF assms(1-4) rc dn assms(8,9)])
qed

subsection \<open>The log of a call\<close>

lemma open_sessions_append:
  "open_sessions stk (a @ b) = Option.bind (open_sessions stk a) (\<lambda>t. open_sessions t b)"
  by (induction stk a rule: open_sessions.induct) (simp_all split: list.splits)

lemma balanced_append:
  "sessions_balanced a \<Longrightarrow> sessions_balanced b \<Longrightarrow> sessions_balanced (a @ b)"
  by (simp add: sessions_balanced_def open_sessions_append)

lemma balanced_bracket:
  "sessions_balanced a \<Longrightarrow> sessions_balanced (NewSessionEv h s # a @ [SessionCloseEv s])"
  by (simp add: sessions_balanced_def open_sessions_append)

lemma reconnect_log:
  "reconnect L w d = (r, wr, dr) \<Longrightarrow> \<exists>delta. wr = w @ delta \<and> sessions_balanced delta"
  by (auto simp: reconnect_def NewDriver_def nonblockClose_def Let_def sessions_balanced_def
      split: option.splits sum.splits)

lemma executeHook_log:
  "executeHook L w hook res = (e, wh) \<Longrightarrow> \<exists>delta. wh = w @ delta \<and> sessions_balanced delta"
  by (auto simp: executeHook_def Let_def sessions_balanced_def
      split: hook_outcome.splits option.splits)

text \<open>
  By induction on the rounds of a call that returns: the log it leaves is the log it
  found, followed by a balanced stretch.
\<close>

lemma nonblock_log:
  "nonblockExecuteQuery L w d q p hook = Some y \<Longrightarrow>
   \<exists>delta. fst (snd y) = w @ delta \<and> sessions_balanced delta"
proof (induction rule: nonblockExecuteQuery.raw_induct[rotated 1, consumes 1, case_names step])
  case (step f L w d q p hook y)
  show ?case
  proof (cases "driver d")
    case None
    with step(2) show ?thesis by (auto simp: NewSession_def sessions_balanced_def)
  next
    case (Some h)
    let ?s = "newSession L w h"
    let ?w1 = "w @ [NewSessionEv h ?s]"
    show ?thesis
    proof (cases "run L ?w1 ?s q p")
      case (Inr res)
      obtain e wh where eh: "executeHook L (?w1 @ [RunEv ?s q p (Inr res)]) hook res = (e, wh)"
        by (cases "executeHook L (?w1 @ [RunEv ?s q p (Inr res)]) hook res")
      from executeHook_log[OF eh] obtain dl
        where dl: "wh = (?w1 @ [RunEv ?s q p (Inr res)]) @ dl" "sessions_balanced dl"
        by blast
      from step(2) Some Inr eh have y: "y = (Returns e, wh @ [SessionCloseEv ?s], d)"
        by (simp add: NewSession_def CloseSession_def)
      have "sessions_balanced (NewSessionEv h ?s # (RunEv ?s q p (Inr res) # dl)
                                 @ [SessionCloseEv ?s])"
        using dl(2) by (intro balanced_bracket) (simp add: sessions_balanced_def)
      then show ?thesis using y dl(1) by simp
    next
      case (Inl e)
      let ?w2 = "?w1 @ [RunEv ?s q p (Inl e)]"
      show ?thesis
      proof (cases "e = ''Trying to create session on closed driver''
                      \<or> prefix ''ConnectivityError'' e")
        case False
        with step(2) Some Inl have y: "y = (Returns (Some e), ?w2 @ [SessionCloseEv ?s], d)"
          by (simp add: NewSession_def CloseSession_def)
        have "sessions_balanced (NewSessionEv h ?s # [RunEv ?s q p (Inl e)]
                                   @ [SessionCloseEv ?s])"
          by (intro balanced_bracket) (simp add: sessions_balanced_def)
        then show ?thesis using y by simp
      next
        case True
        obtain r wr dr where rc: "reconnect L ?w2 d = (r, wr, dr)"
          by (cases "reconnect L ?w2 d")
        from reconnect_log[OF rc] obtain dl where dl: "wr = ?w2 @ dl" "sessions_balanced dl"
          by blast
        show ?thesis
        proof (cases "r = Returns None")
          case False
          with step(2) Some Inl True rc have y: "y = (r, wr @ [SessionCloseEv ?s], dr)"
            by (cases r) (auto simp: NewSession_def CloseSession_def split: option.splits)
          have "sessions_balanced (NewSessionEv h ?s # (RunEv ?s q p (Inl e) # dl)
                                     @ [SessionCloseEv ?s])"
            using dl(2) by (intro balanced_bracket) (simp add: sessions_balanced_def)
          then show ?thesis using y dl(1) by simp
        next
          case rn: True
          with step(2) Some Inl True rc
          obtain rf we de where rec: "f L wr dr q p hook = Some (rf, we, de)"
            and y: "y = (rf, we @ [SessionCloseEv ?s], de)"
            by (auto simp: NewSession_def CloseSession_def split: Option.bind_splits)
          from step(1)[OF rec] obtain dl' where dl': "we = wr @ dl'" "sessions_balanced dl'"
            by auto
          have "sessions_balanced (NewSessionEv h ?s # (RunEv ?s q p (Inl e) # dl @ dl')
                                     @ [SessionCloseEv ?s])"
            using balanced_append[OF dl(2) dl'(2)]
            by (intro balanced_bracket) (simp add: sessions_balanced_def)
          then show ?thesis using y dl(1) dl'(1) by simp
        qed
      qed
    qed
  qed
qed


text \<open>
  When the error of \<^verbatim>\<open>Run\<close> is of the connectivity class, the log of a call that
  returns goes on with the \<^verbatim>\<open>VerifyConnectivity\<close> of \<^verbatim>\<open>reconnect\<close>.
\<close>

lemma nonblock_log_reconnect:
  assumes "nonblockExecuteQuery L w d q p hook = Some y"
    and "driver d = Some h"
    and "s = newSession L w h"
    and "run L (w @ [NewSessionEv h s]) s q p = Inl e"
    and "e = ''Trying to create session on closed driver'' \<or> prefix ''ConnectivityError'' e"
  shows "\<exists>v rest. fst (snd y) =
           w @ NewSessionEv h s # RunEv s q p (Inl e) # VerifyConnectivityEv h v # rest"
proof -
  let ?w2 = "w @ [NewSessionEv h s, RunEv s q p (Inl e)]"
  obtain r wr dr where rc: "reconnect L ?w2 d = (r, wr, dr)"
    by (cases "reconnect L ?w2 d")
  from reconnect_log_verify[OF assms(2) rc] obtain rest
    where wr: "wr = ?w2 @ VerifyConnectivityEv h (verifyConnectivity L ?w2 h) # rest"
    by blast
  have unf: "(case (r, wr, dr) of
              (Returns None, wr, dr) \<Rightarrow>
                 Option.bind (nonblockExecuteQuery L wr dr q p hook)
                   (\<lambda>(r, we, de). Some (r, we @ [SessionCloseEv s], de))
            | (Returns (Some e'), wr, dr) \<Rightarrow>
                 Some (Returns (Some e'), wr @ [SessionCloseEv s], dr)
            | (Panics m, wr, dr) \<Rightarrow> Some (Panics m, wr @ [SessionCloseEv s], dr)) = Some y"
    using nonblock_run_error[OF assms(2,3,4), where hook = hook] assms(1,5) rc by simp
  show ?thesis
  proof (cases "r = Returns None")
    case False
    with unf have "fst (snd y) = wr @ [SessionCloseEv s]"
      by (cases r) (auto split: option.splits)
    with wr show ?thesis by simp
  next
    case True
    with unf obtain yr where rec: "nonblockExecuteQuery L wr dr q p hook = Some yr"
      and y: "fst (snd y) = fst (snd yr) @ [SessionCloseEv s]"
      by (auto split: Option.bind_splits)
    from nonblock_log[OF rec] obtain dl where "fst (snd yr) = wr @ dl" by blast
    with wr y show ?thesis by simp
  qed
qed

text \<open>
  The log of \<^verbatim>\<open>reconnect\<close> has no \<^verbatim>\<open>Run\<close>, and a call on a guardian whose handle
  reference is not nil that returns has called \<^verbatim>\<open>Run\<close> on its new session.
\<close>

lemma reconnect_log_runs:
  assumes "driver d = Some h" and "reconnect L w d = (r, wr, dr)"
  shows "\<exists>rest. wr = w @ VerifyConnectivityEv h (verifyConnectivity L w h) # rest
           \<and> runs rest = 0"
  using assms
  by (auto simp: reconnect_def NewDriver_def nonblockClose_def Let_def runs_def
      split: option.splits sum.splits)

lemma nonblock_log_run:
  assumes "nonblockExecuteQuery L w d q p hook = Some y"
    and "driver d = Some h"
    and "s = newSession L w h"
  shows "\<exists>res rest. fst (snd y) = w @ NewSessionEv h s # RunEv s q p res # rest"
proof (cases "run L (w @ [NewSessionEv h s]) s q p")
  case (Inr res)
  from nonblock_run_ok[OF assms(2,3) Inr, where hook = hook] assms(1)
  show ?thesis by auto
next
  case (Inl e)
  show ?thesis
  proof (cases "e = ''Trying to create session on closed driver''
                  \<or> prefix ''ConnectivityError'' e")
    case True
    from nonblock_log_reconnect[OF assms(1,2,3) Inl True] show ?thesis by blast
  next
    case False
    with nonblock_run_error[OF assms(2,3) Inl, where hook = hook] assms(1)
    show ?thesis by auto
  qed
qed

section \<open>The claims\<close>

subsection \<open>reconnect\<close>

text \<open>
  C4. When \<^verbatim>\<open>VerifyConnectivity\<close> on the current handle succeeds, \<^verbatim>\<open>reconnect\<close> returns
  a nil error at once: its only call on the library is that verification, no handle is
  constructed, and the guardian, with its handle reference, is the one it was given.
\<close>

theorem reconnect_double_check:
  assumes "driver d = Some h" and "verifyConnectivity L w h = None"
  shows "reconnect L w d = (Returns None, w @ [VerifyConnectivityEv h None], d)
         \<and> constructions (drop (length w) (fst (snd (reconnect L w d)))) = 0"
  using assms by (simp add: reconnect_def constructions_def)

theorem reconnect_double_check_witness:
  "reconnect (scripted [] [None] [] :: (unit, nat) neo4j) [DriverCloseEv 3] (guardian 0) =
     (Returns None, [DriverCloseEv 3, VerifyConnectivityEv 0 None], guardian 0)"
  using reconnect_double_check
          [of "guardian 0" 0 "scripted [] [None] [] :: (unit, nat) neo4j" "[DriverCloseEv 3]"]
  by (simp add: script_defs)

text \<open>
  C5. When the construction of the replacement handle fails, \<^verbatim>\<open>reconnect\<close> returns the
  error of the construction; the guardian is unchanged, so its handle reference is still
  the old handle, and the old handle has not been closed.
\<close>

theorem reconnect_construction_fails:
  assumes "driver d = Some h"
    and "verifyConnectivity L w h = Some e"
    and "newDriverWithContext L (w @ [VerifyConnectivityEv h (Some e)])
           (dbURI d) (user d) (password d) = Inl ec"
  shows "reconnect L w d =
           (Returns (Some ec),
            w @ [VerifyConnectivityEv h (Some e),
                 NewDriverWithContextEv (dbURI d) (user d) (password d) (Inl ec)],
            d)
         \<and> DriverCloseEv h \<notin> set (drop (length w) (fst (snd (reconnect L w d))))"
  using assms by (simp add: reconnect_def NewDriver_def)

theorem reconnect_construction_fails_witness:
  "reconnect (scripted [] [Some ''ConnectivityError: unreachable''] [Inl ''bad address'']
               :: (unit, nat) neo4j) [] (guardian 0) =
     (Returns (Some ''bad address''),
      [VerifyConnectivityEv 0 (Some ''ConnectivityError: unreachable''),
       NewDriverWithContextEv ''neo4j://localhost'' ''neo4j'' ''letmein!'' (Inl ''bad address'')],
      guardian 0)"
  using reconnect_construction_fails
          [of "guardian 0" 0
              "scripted [] [Some ''ConnectivityError: unreachable''] [Inl ''bad address'']
                 :: (unit, nat) neo4j"
              "[]" "''ConnectivityError: unreachable''" "''bad address''"]
  by (simp add: script_defs)

subsection \<open>Close\<close>



subsection \<open>Concrete runs\<close>

lemma healthy_run:
  "nonblockExecuteQuery healthy [] (guardian 0) ''RETURN 1'' () hook =
     Some (Returns (fst (executeHook healthy
                           [NewSessionEv 0 0, RunEv 0 ''RETURN 1'' () (Inr 7)] hook 7)),
           [NewSessionEv 0 0, RunEv 0 ''RETURN 1'' () (Inr 7), OnResultsEv 7 (hook 7),
            SessionCloseEv 0], guardian 0)"
  using nonblock_run_ok[of "guardian 0" 0 0 healthy "[]" "''RETURN 1''" "()" 7 hook]
  by (simp add: script_defs)

lemma flaky_run:
  "nonblockExecuteQuery flaky [] (guardian 0) ''RETURN 1'' () accepting =
     Some (Returns None,
           [NewSessionEv 0 0,
            RunEv 0 ''RETURN 1'' () (Inl ''ConnectivityError: connection reset''),
            VerifyConnectivityEv 0 None,
            NewSessionEv 0 1, RunEv 1 ''RETURN 1'' () (Inr 7),
            OnResultsEv 7 (HookReturns None), SessionCloseEv 1, SessionCloseEv 0],
           guardian 0)"
  using nonblock_retry[of "guardian 0" 0 0 flaky "[]" "''RETURN 1''" "()"
          "''ConnectivityError: connection reset''"
          "[NewSessionEv 0 0,
            RunEv 0 ''RETURN 1'' () (Inl ''ConnectivityError: connection reset''),
            VerifyConnectivityEv 0 None]"
          "guardian 0" 0 1 7 accepting]
  by (simp add: script_defs reconnect_def executeHook_def accepting_def)

lemma broken_run:
  "nonblockExecuteQuery broken [] (guardian 0) ''RETURN 1'' () accepting =
     Some (Returns None,
           [NewSessionEv 0 0,
            RunEv 0 ''RETURN 1'' () (Inl ''ConnectivityError: connection reset''),
            VerifyConnectivityEv 0 (Some ''ConnectivityError: connection reset''),
            NewDriverWithContextEv ''neo4j://localhost'' ''neo4j'' ''letmein!'' (Inr 1),
            DriverCloseEv 0,
            NewSessionEv 1 1, RunEv 1 ''RETURN 1'' () (Inr 7),
            OnResultsEv 7 (HookReturns None), SessionCloseEv 1, SessionCloseEv 0],
           (guardian 0)\<lparr>driver := Some 1\<rparr>)"
  using nonblock_rebuild_retry[of "guardian 0" 0 0 broken "[]" "''RETURN 1''" "()"
          "''ConnectivityError: connection reset''" "''ConnectivityError: connection reset''" 1
          "[NewSessionEv 0 0,
            RunEv 0 ''RETURN 1'' () (Inl ''ConnectivityError: connection reset''),
            VerifyConnectivityEv 0 (Some ''ConnectivityError: connection reset''),
            NewDriverWithContextEv ''neo4j://localhost'' ''neo4j'' ''letmein!'' (Inr 1),
            DriverCloseEv 0]"
          1 7 accepting]
  by (simp add: script_defs executeHook_def accepting_def)

lemma unreachable_run:
  "nonblockExecuteQuery unreachable [] (guardian 0) ''RETURN 1'' () hook =
     Some (Returns (Some ''bad address''),
           [NewSessionEv 0 0,
            RunEv 0 ''RETURN 1'' () (Inl ''ConnectivityError: connection reset''),
            VerifyConnectivityEv 0 (Some ''ConnectivityError: connection reset''),
            NewDriverWithContextEv ''neo4j://localhost'' ''neo4j'' ''letmein!''
              (Inl ''bad address''),
            SessionCloseEv 0],
           guardian 0)"
  using nonblock_run_error[of "guardian 0" 0 0 unreachable "[]" "''RETURN 1''" "()"
          "''ConnectivityError: connection reset''" hook]
  by (simp add: script_defs reconnect_def NewDriver_def)

subsection \<open>The internal execute path\<close>

text \<open>
  C1, as the code has it. For an error \<open>e\<close> returned by \<^verbatim>\<open>session.Run\<close>:
  \<^item> when the message of \<open>e\<close> is neither exactly "Trying to create session on closed
    driver" nor begins with "ConnectivityError", the call returns \<open>e\<close> unchanged after
    \<^verbatim>\<open>NewSession\<close>, \<^verbatim>\<open>Run\<close> and the close of the session, with the guardian unchanged;
  \<^item> when it is, \<^verbatim>\<open>reconnect\<close> is called on the state the failed \<^verbatim>\<open>Run\<close> left; if
    \<^verbatim>\<open>reconnect\<close> returns nil the whole path is run again on the state \<^verbatim>\<open>reconnect\<close> left
    and its result is returned, and otherwise what \<^verbatim>\<open>reconnect\<close> returned is returned, with
    no retry.
  In the log of a call that returns, a \<^verbatim>\<open>reconnect\<close> appears if and only if the message
  is of the connectivity class, and a second \<^verbatim>\<open>Run\<close> appears if and only if, in addition,
  \<^verbatim>\<open>reconnect\<close> returned nil.
\<close>

theorem run_error_reconnect_and_retry:
  assumes "driver d = Some h"
    and "s = newSession L w h"
    and "run L (w @ [NewSessionEv h s]) s q p = Inl e"
    and "reconnect L (w @ [NewSessionEv h s, RunEv s q p (Inl e)]) d = (rr, wr, dr)"
  shows "(\<not> (e = ''Trying to create session on closed driver'' \<or> prefix ''ConnectivityError'' e)
            \<longrightarrow> nonblockExecuteQuery L w d q p hook =
                  Some (Returns (Some e),
                        w @ [NewSessionEv h s, RunEv s q p (Inl e), SessionCloseEv s], d))
       \<and> ((e = ''Trying to create session on closed driver'' \<or> prefix ''ConnectivityError'' e)
            \<and> rr = Returns None
            \<longrightarrow> nonblockExecuteQuery L w d q p hook =
                  Option.bind (nonblockExecuteQuery L wr dr q p hook)
                    (\<lambda>(r, we, de). Some (r, we @ [SessionCloseEv s], de)))
       \<and> ((e = ''Trying to create session on closed driver'' \<or> prefix ''ConnectivityError'' e)
            \<and> rr \<noteq> Returns None
            \<longrightarrow> nonblockExecuteQuery L w d q p hook = Some (rr, wr @ [SessionCloseEv s], dr))
       \<and> (\<forall>y. nonblockExecuteQuery L w d q p hook = Some y \<longrightarrow>
              (0 < reconnects (drop (length w) (fst (snd y)))) =
                (e = ''Trying to create session on closed driver''
                   \<or> prefix ''ConnectivityError'' e)
            \<and> (1 < runs (drop (length w) (fst (snd y)))) =
                ((e = ''Trying to create session on closed driver''
                    \<or> prefix ''ConnectivityError'' e) \<and> rr = Returns None))"
proof -
  let ?M = "e = ''Trying to create session on closed driver'' \<or> prefix ''ConnectivityError'' e"
  note unf = nonblock_run_error[OF assms(1-3), where hook = hook]
  have other: "nonblockExecuteQuery L w d q p hook =
                 Some (Returns (Some e),
                       w @ [NewSessionEv h s, RunEv s q p (Inl e), SessionCloseEv s], d)"
    if "\<not> ?M"
    using unf that by simp
  have retry: "nonblockExecuteQuery L w d q p hook =
                 Option.bind (nonblockExecuteQuery L wr dr q p hook)
                   (\<lambda>(r, we, de). Some (r, we @ [SessionCloseEv s], de))"
    if "?M" "rr = Returns None"
    using unf that assms(4) by simp
  have failed: "nonblockExecuteQuery L w d q p hook = Some (rr, wr @ [SessionCloseEv s], dr)"
    if "?M" "rr \<noteq> Returns None"
    using unf that assms(4) by (cases rr) (auto split: option.splits)
  from reconnect_log_runs[OF assms(1,4)] obtain rest
    where wr: "wr = (w @ [NewSessionEv h s, RunEv s q p (Inl e)])
                      @ VerifyConnectivityEv h
                          (verifyConnectivity L (w @ [NewSessionEv h s, RunEv s q p (Inl e)]) h)
                        # rest"
      and rest: "length (filter is_run rest) = 0"
    unfolding runs_def by blast
  have obs: "(0 < reconnects (drop (length w) (fst (snd y)))) = ?M
             \<and> (1 < runs (drop (length w) (fst (snd y)))) = (?M \<and> rr = Returns None)"
    if y: "nonblockExecuteQuery L w d q p hook = Some y" for y
  proof (cases "?M")
    case False
    with other y
    have "fst (snd y) = w @ [NewSessionEv h s, RunEv s q p (Inl e), SessionCloseEv s]"
      by auto
    with False show ?thesis by (simp add: reconnects_def runs_def)
  next
    case True
    show ?thesis
    proof (cases "rr = Returns None")
      case False
      with failed[OF True] y have "fst (snd y) = wr @ [SessionCloseEv s]" by auto
      with wr rest True False show ?thesis by (simp add: reconnects_def runs_def)
    next
      case rn: True
      with retry[OF True] y obtain yr
        where rec: "nonblockExecuteQuery L wr dr q p hook = Some yr"
          and fy: "fst (snd y) = fst (snd yr) @ [SessionCloseEv s]"
        by (auto split: Option.bind_splits)
      from reconnect_outcome[OF _ assms(4)] assms(1) obtain hn where "driver dr = Some hn"
        by auto
      from nonblock_log_run[OF rec this refl] obtain res rest'
        where "fst (snd yr) =
                 wr @ NewSessionEv hn (newSession L wr hn)
                      # RunEv (newSession L wr hn) q p res # rest'"
        by blast
      with fy wr True rn show ?thesis by (simp add: reconnects_def runs_def)
    qed
  qed
  from other retry failed obs show ?thesis by blast
qed

theorem run_error_reconnect_and_retry_witness:
  "nonblockExecuteQuery rejecting [] (guardian 0) ''RETURN'' () accepting =
     Some (Returns (Some ''Neo.ClientError.Statement.SyntaxError''),
           [NewSessionEv 0 0,
            RunEv 0 ''RETURN'' () (Inl ''Neo.ClientError.Statement.SyntaxError''),
            SessionCloseEv 0],
           guardian 0)
   \<and> nonblockExecuteQuery unreachable [] (guardian 0) ''RETURN 1'' () accepting =
     Some (Returns (Some ''bad address''),
           [NewSessionEv 0 0,
            RunEv 0 ''RETURN 1'' () (Inl ''ConnectivityError: connection reset''),
            VerifyConnectivityEv 0 (Some ''ConnectivityError: connection reset''),
            NewDriverWithContextEv ''neo4j://localhost'' ''neo4j'' ''letmein!''
              (Inl ''bad address''),
            SessionCloseEv 0],
           guardian 0)
   \<and> nonblockExecuteQuery flaky [] (guardian 0) ''RETURN 1'' () accepting =
     Some (Returns None,
           [NewSessionEv 0 0,
            RunEv 0 ''RETURN 1'' () (Inl ''ConnectivityError: connection reset''),
            VerifyConnectivityEv 0 None,
            NewSessionEv 0 1, RunEv 1 ''RETURN 1'' () (Inr 7),
            OnResultsEv 7 (HookReturns None), SessionCloseEv 1, SessionCloseEv 0],
           guardian 0)"
proof -
  note other =
    run_error_reconnect_and_retry
      [of "guardian 0" 0 0 rejecting "[]" "''RETURN''" "()"
          "''Neo.ClientError.Statement.SyntaxError''"
          "Returns (Some ''script ended'')"
          "[NewSessionEv 0 0,
            RunEv 0 ''RETURN'' () (Inl ''Neo.ClientError.Statement.SyntaxError''),
            VerifyConnectivityEv 0 (Some ''script ended''),
            NewDriverWithContextEv ''neo4j://localhost'' ''neo4j'' ''letmein!''
              (Inl ''script ended'')]"
          "guardian 0" accepting, THEN conjunct1]
  note failed =
    run_error_reconnect_and_retry
      [of "guardian 0" 0 0 unreachable "[]" "''RETURN 1''" "()"
          "''ConnectivityError: connection reset''"
          "Returns (Some ''bad address'')"
          "[NewSessionEv 0 0,
            RunEv 0 ''RETURN 1'' () (Inl ''ConnectivityError: connection reset''),
            VerifyConnectivityEv 0 (Some ''ConnectivityError: connection reset''),
            NewDriverWithContextEv ''neo4j://localhost'' ''neo4j'' ''letmein!''
              (Inl ''bad address'')]"
          "guardian 0" accepting, THEN conjunct2, THEN conjunct2, THEN conjunct1]
  note retry =
    run_error_reconnect_and_retry
      [of "guardian 0" 0 0 flaky "[]" "''RETURN 1''" "()"
          "''ConnectivityError: connection reset''"
          "Returns None"
          "[NewSessionEv 0 0,
            RunEv 0 ''RETURN 1'' () (Inl ''ConnectivityError: connection reset''),
            VerifyConnectivityEv 0 None]"
          "guardian 0" accepting, THEN conjunct2, THEN conjunct1]
  have a: "nonblockExecuteQuery rejecting [] (guardian 0) ''RETURN'' () accepting =
     Some (Returns (Some ''Neo.ClientError.Statement.SyntaxError''),
           [NewSessionEv 0 0,
            RunEv 0 ''RETURN'' () (Inl ''Neo.ClientError.Statement.SyntaxError''),
            SessionCloseEv 0],
           guardian 0)"
    using other by (simp add: script_defs reconnect_def NewDriver_def)
  have b: "nonblockExecuteQuery unreachable [] (guardian 0) ''RETURN 1'' () accepting =
     Some (Returns (Some ''bad address''),
           [NewSessionEv 0 0,
            RunEv 0 ''RETURN 1'' () (Inl ''ConnectivityError: connection reset''),
            VerifyConnectivityEv 0 (Some ''ConnectivityError: connection reset''),
            NewDriverWithContextEv ''neo4j://localhost'' ''neo4j'' ''letmein!''
              (Inl ''bad address''),
            SessionCloseEv 0],
           guardian 0)"
    using failed by (simp add: script_defs reconnect_def NewDriver_def)
  have inner: "nonblockExecuteQuery flaky
                 [NewSessionEv 0 0,
                  RunEv 0 ''RETURN 1'' () (Inl ''ConnectivityError: connection reset''),
                  VerifyConnectivityEv 0 None]
                 (guardian 0) ''RETURN 1'' () accepting =
     Some (Returns None,
           [NewSessionEv 0 0,
            RunEv 0 ''RETURN 1'' () (Inl ''ConnectivityError: connection reset''),
            VerifyConnectivityEv 0 None,
            NewSessionEv 0 1, RunEv 1 ''RETURN 1'' () (Inr 7),
            OnResultsEv 7 (HookReturns None), SessionCloseEv 1],
           guardian 0)"
    using nonblock_run_ok
          [of "guardian 0" 0 1 flaky
              "[NewSessionEv 0 0,
                RunEv 0 ''RETURN 1'' () (Inl ''ConnectivityError: connection reset''),
                VerifyConnectivityEv 0 None]"
              "''RETURN 1''" "()" 7 accepting]
    by (simp add: script_defs executeHook_def accepting_def)
  have "nonblockExecuteQuery flaky [] (guardian 0) ''RETURN 1'' () accepting =
          Option.bind
            (nonblockExecuteQuery flaky
               [NewSessionEv 0 0,
                RunEv 0 ''RETURN 1'' () (Inl ''ConnectivityError: connection reset''),
                VerifyConnectivityEv 0 None]
               (guardian 0) ''RETURN 1'' () accepting)
            (\<lambda>(r, we, de). Some (r, we @ [SessionCloseEv 0], de))"
    using retry by (simp add: script_defs reconnect_def)
  then have c: "nonblockExecuteQuery flaky [] (guardian 0) ''RETURN 1'' () accepting =
     Some (Returns None,
           [NewSessionEv 0 0,
            RunEv 0 ''RETURN 1'' () (Inl ''ConnectivityError: connection reset''),
            VerifyConnectivityEv 0 None,
            NewSessionEv 0 1, RunEv 1 ''RETURN 1'' () (Inr 7),
            OnResultsEv 7 (HookReturns None), SessionCloseEv 1, SessionCloseEv 0],
           guardian 0)"
    unfolding inner by simp
  from a b c show ?thesis by (intro conjI)
qed

text \<open>
  The claim C1 as it is written fails when \<^verbatim>\<open>reconnect\<close> fails: the message of the
  error of \<^verbatim>\<open>Run\<close> begins with "ConnectivityError" and \<^verbatim>\<open>reconnect\<close> is called, but the
  construction of the new handle fails, its error is returned, and \<^verbatim>\<open>Run\<close> has been called
  once only.
\<close>

theorem reconnect_without_retry_counterexample:
  "run unreachable [NewSessionEv 0 0] 0 ''RETURN 1'' () =
     Inl ''ConnectivityError: connection reset''
   \<and> prefix ''ConnectivityError'' ''ConnectivityError: connection reset''
   \<and> nonblockExecuteQuery unreachable [] (guardian 0) ''RETURN 1'' () accepting =
     Some (Returns (Some ''bad address''),
           [NewSessionEv 0 0,
            RunEv 0 ''RETURN 1'' () (Inl ''ConnectivityError: connection reset''),
            VerifyConnectivityEv 0 (Some ''ConnectivityError: connection reset''),
            NewDriverWithContextEv ''neo4j://localhost'' ''neo4j'' ''letmein!''
              (Inl ''bad address''),
            SessionCloseEv 0],
           guardian 0)
   \<and> reconnects
         [NewSessionEv 0 0,
          RunEv 0 ''RETURN 1'' () (Inl ''ConnectivityError: connection reset'' :: error + nat),
          VerifyConnectivityEv 0 (Some ''ConnectivityError: connection reset''),
          NewDriverWithContextEv ''neo4j://localhost'' ''neo4j'' ''letmein!''
            (Inl ''bad address''),
          SessionCloseEv 0] = 1
   \<and> runs
         [NewSessionEv 0 0,
          RunEv 0 ''RETURN 1'' () (Inl ''ConnectivityError: connection reset'' :: error + nat),
          VerifyConnectivityEv 0 (Some ''ConnectivityError: connection reset''),
          NewDriverWithContextEv ''neo4j://localhost'' ''neo4j'' ''letmein!''
            (Inl ''bad address''),
          SessionCloseEv 0] = 1"
  using unreachable_run[of accepting]
  by (simp add: script_defs)

text \<open>
  C6. A call of the internal execute path that returns, on whatever path, leaves the
  log it found followed by a stretch in which every session opened, those of the retry
  rounds included, has been closed: replaying the stretch from no open session ends with
  no open session.
\<close>

theorem sessions_closed_on_return:
  assumes "nonblockExecuteQuery L w d q p hook = Some (r, we, de)"
  shows "take (length w) we = w \<and> open_sessions [] (drop (length w) we) = Some []"
proof -
  from nonblock_log[OF assms] obtain delta
    where "we = w @ delta" and "sessions_balanced delta"
    by auto
  then show ?thesis by (simp add: sessions_balanced_def)
qed

theorem sessions_closed_on_return_witness:
  "open_sessions []
     [NewSessionEv 0 0,
      RunEv 0 ''RETURN 1'' () (Inl ''ConnectivityError: connection reset''),
      VerifyConnectivityEv 0 (Some ''ConnectivityError: connection reset''),
      NewDriverWithContextEv ''neo4j://localhost'' ''neo4j'' ''letmein!'' (Inr 1),
      DriverCloseEv 0,
      NewSessionEv 1 1, RunEv 1 ''RETURN 1'' () (Inr (7 :: nat)),
      OnResultsEv 7 (HookReturns None), SessionCloseEv 1, SessionCloseEv 0] = Some []"
  using sessions_closed_on_return[OF broken_run] by simp

text \<open>
  C7, as the code has it. On the success path the hook is called on the result cursor
  while the session is still open; the session is closed, by the deferred
  \<^verbatim>\<open>CloseSession\<close>, after the hook has returned or its panic has been recovered, and
  before the internal execute returns.
\<close>

theorem hook_runs_before_session_close:
  assumes "driver d = Some h"
    and "s = newSession L w h"
    and "run L (w @ [NewSessionEv h s]) s q p = Inr res"
  shows "nonblockExecuteQuery L w d q p hook =
           Some (Returns (fst (executeHook L (w @ [NewSessionEv h s, RunEv s q p (Inr res)])
                                 hook res)),
                 w @ [NewSessionEv h s, RunEv s q p (Inr res), OnResultsEv res (hook res),
                      SessionCloseEv s], d)
         \<and> \<not> closed_before_hook s
               [NewSessionEv h s, RunEv s q p (Inr res), OnResultsEv res (hook res),
                SessionCloseEv s]"
  using nonblock_run_ok[OF assms, where hook = hook] by simp

theorem hook_runs_before_session_close_witness:
  "nonblockExecuteQuery healthy [] (guardian 0) ''RETURN 1'' () panicking =
     Some (Returns (Some (''[neo4j onResults] recovered from panic: index out of range''
                            @ [CHR 0x0A, CHR 0x0A] @ ''goroutine 1 [running]:'')),
           [NewSessionEv 0 0, RunEv 0 ''RETURN 1'' () (Inr 7),
            OnResultsEv 7 (HookPanics (Some ''index out of range'')), SessionCloseEv 0],
           guardian 0)"
  using hook_runs_before_session_close
          [of "guardian 0" 0 0 healthy "[]" "''RETURN 1''" "()" 7 panicking]
  by (simp add: script_defs executeHook_def panicking_def)

text \<open>
  The claim C7 as it is written fails on a run whose query and hook succeed: the
  session is not closed ahead of the call of the hook.
\<close>

theorem session_closed_before_hook_counterexample:
  "nonblockExecuteQuery healthy [] (guardian 0) ''RETURN 1'' () accepting =
     Some (Returns None,
           [NewSessionEv 0 0, RunEv 0 ''RETURN 1'' () (Inr 7),
            OnResultsEv 7 (HookReturns None), SessionCloseEv 0],
           guardian 0)
   \<and> \<not> closed_before_hook 0
         [NewSessionEv 0 0, RunEv 0 ''RETURN 1'' () (Inr (7 :: nat)),
          OnResultsEv 7 (HookReturns None), SessionCloseEv 0 :: (unit, nat) event]"
  using healthy_run[of accepting]
  by (simp add: script_defs executeHook_def accepting_def)

subsection \<open>ExecuteQuery\<close>

text \<open>
  C2, as the code has it. If the first \<^verbatim>\<open>Run\<close> returns an error of the connectivity
  class, \<^verbatim>\<open>reconnect\<close> returns nil, and the second \<^verbatim>\<open>Run\<close> and the hook succeed, then
  \<^verbatim>\<open>ExecuteQuery\<close> returns a nil error after exactly one call of \<^verbatim>\<open>reconnect\<close> and
  exactly two calls of \<^verbatim>\<open>Run\<close>. That \<^verbatim>\<open>reconnect\<close> constructs exactly one handle when
  \<^verbatim>\<open>VerifyConnectivity\<close> fails on the current handle, and none when it succeeds.
\<close>

theorem retry_after_reconnect:
  assumes "driver d = Some h"
    and "s = newSession L w h"
    and "run L (w @ [NewSessionEv h s]) s q p = Inl e"
    and "e = ''Trying to create session on closed driver'' \<or> prefix ''ConnectivityError'' e"
    and "reconnect L (w @ [NewSessionEv h s, RunEv s q p (Inl e)]) d = (Returns None, wr, dr)"
    and "driver dr = Some hn"
    and "t = newSession L wr hn"
    and "run L (wr @ [NewSessionEv hn t]) t q p = Inr res"
    and "hook res = HookReturns None"
    and "we = wr @ [NewSessionEv hn t, RunEv t q p (Inr res), OnResultsEv res (HookReturns None),
                    SessionCloseEv t, SessionCloseEv s]"
  shows "ExecuteQuery L w d q p hook = Some (Returns None, we, dr)
         \<and> reconnects (drop (length w) we) = 1
         \<and> runs (drop (length w) we) = 2
         \<and> constructions (drop (length w) we) =
             (if verifyConnectivity L (w @ [NewSessionEv h s, RunEv s q p (Inl e)]) h = None
              then 0 else 1)"
proof -
  have "nonblockExecuteQuery L w d q p hook =
          Some (Returns (fst (executeHook L (wr @ [NewSessionEv hn t, RunEv t q p (Inr res)])
                                hook res)),
                wr @ [NewSessionEv hn t, RunEv t q p (Inr res), OnResultsEv res (hook res),
                      SessionCloseEv t, SessionCloseEv s], dr)"
    by (rule nonblock_retry[OF assms(1-8)])
  then have ex: "ExecuteQuery L w d q p hook = Some (Returns None, we, dr)"
    using assms(9,10) by (simp add: ExecuteQuery_def executeHook_def)
  from reconnect_nil_log[OF assms(1,5)] obtain delta
    where wr: "wr = (w @ [NewSessionEv h s, RunEv s q p (Inl e)]) @ delta"
      and n: "length (filter is_verify delta) = 1" "length (filter is_run delta) = 0"
        "length (filter is_construction delta) =
           (if verifyConnectivity L (w @ [NewSessionEv h s, RunEv s q p (Inl e)]) h = None
            then 0 else 1)"
    unfolding reconnects_def runs_def constructions_def by blast
  have "drop (length w) we =
          NewSessionEv h s # RunEv s q p (Inl e) # delta
            @ [NewSessionEv hn t, RunEv t q p (Inr res), OnResultsEv res (HookReturns None),
               SessionCloseEv t, SessionCloseEv s]"
    using wr assms(10) by simp
  then have "reconnects (drop (length w) we) = 1"
    and "runs (drop (length w) we) = 2"
    and "constructions (drop (length w) we) =
           (if verifyConnectivity L (w @ [NewSessionEv h s, RunEv s q p (Inl e)]) h = None
            then 0 else 1)"
    using n by (simp_all add: reconnects_def runs_def constructions_def)
  with ex show ?thesis by blast
qed

theorem retry_after_reconnect_witness:
  "ExecuteQuery broken [] (guardian 0) ''RETURN 1'' () accepting =
     Some (Returns None,
           [NewSessionEv 0 0,
            RunEv 0 ''RETURN 1'' () (Inl ''ConnectivityError: connection reset''),
            VerifyConnectivityEv 0 (Some ''ConnectivityError: connection reset''),
            NewDriverWithContextEv ''neo4j://localhost'' ''neo4j'' ''letmein!'' (Inr 1),
            DriverCloseEv 0,
            NewSessionEv 1 1, RunEv 1 ''RETURN 1'' () (Inr 7),
            OnResultsEv 7 (HookReturns None), SessionCloseEv 1, SessionCloseEv 0],
           (guardian 0)\<lparr>driver := Some 1\<rparr>)
   \<and> constructions
         [NewSessionEv 0 0,
          RunEv 0 ''RETURN 1'' () (Inl ''ConnectivityError: connection reset''),
          VerifyConnectivityEv 0 (Some ''ConnectivityError: connection reset''),
          NewDriverWithContextEv ''neo4j://localhost'' ''neo4j'' ''letmein!'' (Inr 1),
          DriverCloseEv 0,
          NewSessionEv 1 1, RunEv 1 ''RETURN 1'' () (Inr (7 :: nat)),
          OnResultsEv 7 (HookReturns None), SessionCloseEv 1, SessionCloseEv 0] = 1"
  using retry_after_reconnect
          [of "guardian 0" 0 0 broken "[]" "''RETURN 1''" "()"
              "''ConnectivityError: connection reset''"
              "[NewSessionEv 0 0,
                RunEv 0 ''RETURN 1'' () (Inl ''ConnectivityError: connection reset''),
                VerifyConnectivityEv 0 (Some ''ConnectivityError: connection reset''),
                NewDriverWithContextEv ''neo4j://localhost'' ''neo4j'' ''letmein!'' (Inr 1),
                DriverCloseEv 0]"
              "(guardian 0)\<lparr>driver := Some 1\<rparr>" 1 1 7 accepting
              "[NewSessionEv 0 0,
                RunEv 0 ''RETURN 1'' () (Inl ''ConnectivityError: connection reset''),
                VerifyConnectivityEv 0 (Some ''ConnectivityError: connection reset''),
                NewDriverWithContextEv ''neo4j://localhost'' ''neo4j'' ''letmein!'' (Inr 1),
                DriverCloseEv 0,
                NewSessionEv 1 1, RunEv 1 ''RETURN 1'' () (Inr 7),
                OnResultsEv 7 (HookReturns None), SessionCloseEv 1, SessionCloseEv 0]"]
  by (simp add: script_defs accepting_def reconnect_def NewDriver_def nonblockClose_def)

text \<open>
  The claim C2 as it is written fails when the handle passes the verification of
  \<^verbatim>\<open>reconnect\<close>: the first \<^verbatim>\<open>Run\<close> returns an error of the connectivity class,
  \<^verbatim>\<open>reconnect\<close> returns nil, the second \<^verbatim>\<open>Run\<close> and the hook succeed and \<^verbatim>\<open>ExecuteQuery\<close>
  returns nil, but no handle has been constructed.
\<close>

theorem one_construction_per_retry_counterexample:
  "run flaky [NewSessionEv 0 0] 0 ''RETURN 1'' () = Inl ''ConnectivityError: connection reset''
   \<and> reconnect flaky
         [NewSessionEv 0 0,
          RunEv 0 ''RETURN 1'' () (Inl ''ConnectivityError: connection reset'')]
         (guardian 0) =
       (Returns None,
        [NewSessionEv 0 0,
         RunEv 0 ''RETURN 1'' () (Inl ''ConnectivityError: connection reset''),
         VerifyConnectivityEv 0 None],
        guardian 0)
   \<and> ExecuteQuery flaky [] (guardian 0) ''RETURN 1'' () accepting =
       Some (Returns None,
             [NewSessionEv 0 0,
              RunEv 0 ''RETURN 1'' () (Inl ''ConnectivityError: connection reset''),
              VerifyConnectivityEv 0 None,
              NewSessionEv 0 1, RunEv 1 ''RETURN 1'' () (Inr 7),
              OnResultsEv 7 (HookReturns None), SessionCloseEv 1, SessionCloseEv 0],
             guardian 0)
   \<and> constructions
         [NewSessionEv 0 0,
          RunEv 0 ''RETURN 1'' () (Inl ''ConnectivityError: connection reset''),
          VerifyConnectivityEv 0 None,
          NewSessionEv 0 1, RunEv 1 ''RETURN 1'' () (Inr (7 :: nat)),
          OnResultsEv 7 (HookReturns None), SessionCloseEv 1, SessionCloseEv 0] \<noteq> 1"
  using flaky_run
  by (simp add: ExecuteQuery_def script_defs reconnect_def)

text \<open>
  What a failing hook gives, for the record: an error that the hook returns, and a
  panic of the hook with a value that is not nil, come back from \<^verbatim>\<open>ExecuteQuery\<close> as an
  error, after a single \<^verbatim>\<open>Run\<close> and with no \<^verbatim>\<open>reconnect\<close>.
\<close>

lemma hook_failure_surfaced:
  assumes "driver d = Some h"
    and "s = newSession L w h"
    and "run L (w @ [NewSessionEv h s]) s q p = Inr res"
    and "we = w @ [NewSessionEv h s, RunEv s q p (Inr res), OnResultsEv res (hook res),
                   SessionCloseEv s]"
  shows "hook res = HookReturns (Some e) \<Longrightarrow>
           ExecuteQuery L w d q p hook = Some (Returns (Some e), we, d)"
    and "hook res = HookPanics (Some v) \<Longrightarrow>
           ExecuteQuery L w d q p hook =
             Some (Returns (Some (''[neo4j onResults] recovered from panic: '' @ v
                                    @ [CHR 0x0A, CHR 0x0A]
                                    @ stack L (w @ [NewSessionEv h s, RunEv s q p (Inr res),
                                                    OnResultsEv res (hook res)]))), we, d)"
    and "reconnects (drop (length w) we) = 0 \<and> runs (drop (length w) we) = 1"
  using nonblock_run_ok[OF assms(1-3), where hook = hook] assms(4)
  by (simp_all add: ExecuteQuery_def executeHook_def Let_def reconnects_def runs_def)

text \<open>
  C3. A hook that panics with the nil value: \<^verbatim>\<open>recover()\<close> gives nil, the deferred
  function of \<^verbatim>\<open>executeHook\<close> takes that for no panic, and \<^verbatim>\<open>ExecuteQuery\<close> returns a nil
  error although the hook has panicked.
\<close>

theorem nil_panic_returns_no_error:
  "ExecuteQuery healthy [] (guardian 0) ''RETURN 1'' () panicking_nil =
     Some (Returns None,
           [NewSessionEv 0 0, RunEv 0 ''RETURN 1'' () (Inr 7),
            OnResultsEv 7 (HookPanics None), SessionCloseEv 0],
           guardian 0)"
  using healthy_run[of panicking_nil]
  by (simp add: ExecuteQuery_def executeHook_def panicking_nil_def)

text \<open>
  C8. A guardian is constructed with parameters that the library accepts and \<^verbatim>\<open>Close\<close>
  is called. Suppose that \<^verbatim>\<open>Run\<close> on a session of the closed handle returns the error
  "Trying to create session on closed driver", that \<^verbatim>\<open>VerifyConnectivity\<close> fails on the
  closed handle, that the library builds the replacement handle, and that \<^verbatim>\<open>Run\<close> on the
  new handle and the hook succeed. Then \<^verbatim>\<open>ExecuteQuery\<close> returns a nil error, after one
  \<^verbatim>\<open>reconnect\<close> and one retry.
\<close>

theorem execute_after_close:
  assumes "newDriverWithContext L w (ConnectionString st) (User st) (Password st) = Inr h"
    and "d = \<lparr>driver = Some h, dbURI = ConnectionString st, user = User st,
                password = Password st\<rparr>"
    and "wc = w @ [NewDriverWithContextEv (ConnectionString st) (User st) (Password st) (Inr h),
                   DriverCloseEv h]"
    and "s = newSession L wc h"
    and "e = ''Trying to create session on closed driver''"
    and "run L (wc @ [NewSessionEv h s]) s q p = Inl e"
    and "verifyConnectivity L (wc @ [NewSessionEv h s, RunEv s q p (Inl e)]) h = Some ev"
    and "newDriverWithContext L
           (wc @ [NewSessionEv h s, RunEv s q p (Inl e), VerifyConnectivityEv h (Some ev)])
           (ConnectionString st) (User st) (Password st) = Inr hn"
    and "wr = wc @ [NewSessionEv h s, RunEv s q p (Inl e), VerifyConnectivityEv h (Some ev),
                    NewDriverWithContextEv (ConnectionString st) (User st) (Password st)
                      (Inr hn),
                    DriverCloseEv h]"
    and "t = newSession L wr hn"
    and "run L (wr @ [NewSessionEv hn t]) t q p = Inr res"
    and "hook res = HookReturns None"
    and "we = wr @ [NewSessionEv hn t, RunEv t q p (Inr res), OnResultsEv res (HookReturns None),
                    SessionCloseEv t, SessionCloseEv s]"
  shows "(case NewDriver L w st of
            (Inl ec, w1) \<Rightarrow> None
          | (Inr d1, w1) \<Rightarrow>
              (case Close w1 d1 of
                 (w2, d2) \<Rightarrow> ExecuteQuery L w2 d2 q p hook)) =
           Some (Returns None, we, d\<lparr>driver := Some hn\<rparr>)
         \<and> reconnects (drop (length wc) we) = 1
         \<and> runs (drop (length wc) we) = 2"
proof -
  have nd: "NewDriver L w st =
              (Inr d, w @ [NewDriverWithContextEv (ConnectionString st) (User st) (Password st)
                             (Inr h)])"
    using assms(1,2) by (simp add: NewDriver_def)
  have cl: "Close (w @ [NewDriverWithContextEv (ConnectionString st) (User st) (Password st)
                          (Inr h)]) d = (wc, d)"
    using assms(2,3) by (simp add: Close_def nonblockClose_def)
  have dh: "driver d = Some h" using assms(2) by simp
  have cls: "e = ''Trying to create session on closed driver'' \<or> prefix ''ConnectivityError'' e"
    using assms(5) by simp
  have v: "newDriverWithContext L
             (wc @ [NewSessionEv h s, RunEv s q p (Inl e), VerifyConnectivityEv h (Some ev)])
             (dbURI d) (user d) (password d) = Inr hn"
    using assms(2,8) by simp
  have wr: "wr = wc @ [NewSessionEv h s, RunEv s q p (Inl e), VerifyConnectivityEv h (Some ev),
                       NewDriverWithContextEv (dbURI d) (user d) (password d) (Inr hn),
                       DriverCloseEv h]"
    using assms(2,9) by simp
  have "nonblockExecuteQuery L wc d q p hook =
          Some (Returns (fst (executeHook L (wr @ [NewSessionEv hn t, RunEv t q p (Inr res)])
                                hook res)),
                wr @ [NewSessionEv hn t, RunEv t q p (Inr res), OnResultsEv res (hook res),
                      SessionCloseEv t, SessionCloseEv s], d\<lparr>driver := Some hn\<rparr>)"
    by (rule nonblock_rebuild_retry[OF dh assms(4) assms(6) cls assms(7) v wr assms(10,11)])
  then have "ExecuteQuery L wc d q p hook = Some (Returns None, we, d\<lparr>driver := Some hn\<rparr>)"
    using assms(12,13) by (simp add: ExecuteQuery_def executeHook_def)
  with nd cl have "(case NewDriver L w st of
            (Inl ec, w1) \<Rightarrow> None
          | (Inr d1, w1) \<Rightarrow>
              (case Close w1 d1 of
                 (w2, d2) \<Rightarrow> ExecuteQuery L w2 d2 q p hook)) =
           Some (Returns None, we, d\<lparr>driver := Some hn\<rparr>)"
    by simp
  then show ?thesis
    using assms(9,13) by (simp add: reconnects_def runs_def)
qed

theorem execute_after_close_witness:
  "(case NewDriver closing []
           \<lparr>ConnectionString = ''neo4j://localhost'', User = ''neo4j'',
              Password = ''letmein!''\<rparr> of
      (Inl ec, w1) \<Rightarrow> None
    | (Inr d1, w1) \<Rightarrow>
        (case Close w1 d1 of
           (w2, d2) \<Rightarrow> ExecuteQuery closing w2 d2 ''CREATE (test:Test) return true'' ()
                         accepting)) =
     Some (Returns None,
           [NewDriverWithContextEv ''neo4j://localhost'' ''neo4j'' ''letmein!'' (Inr 0),
            DriverCloseEv 0,
            NewSessionEv 0 0,
            RunEv 0 ''CREATE (test:Test) return true'' ()
              (Inl ''Trying to create session on closed driver''),
            VerifyConnectivityEv 0 (Some ''Trying to create session on closed driver''),
            NewDriverWithContextEv ''neo4j://localhost'' ''neo4j'' ''letmein!'' (Inr 1),
            DriverCloseEv 0,
            NewSessionEv 1 1, RunEv 1 ''CREATE (test:Test) return true'' () (Inr 7),
            OnResultsEv 7 (HookReturns None), SessionCloseEv 1, SessionCloseEv 0],
           \<lparr>driver = Some 1, dbURI = ''neo4j://localhost'', user = ''neo4j'',
              password = ''letmein!''\<rparr>)"
  using execute_after_close
          [of closing "[]"
              "\<lparr>ConnectionString = ''neo4j://localhost'', User = ''neo4j'',
                 Password = ''letmein!''\<rparr>"
              0 "guardian 0"
              "[NewDriverWithContextEv ''neo4j://localhost'' ''neo4j'' ''letmein!'' (Inr 0),
                DriverCloseEv 0]"
              0 "''Trying to create session on closed driver''"
              "''CREATE (test:Test) return true''" "()"
              "''Trying to create session on closed driver''" 1
              "[NewDriverWithContextEv ''neo4j://localhost'' ''neo4j'' ''letmein!'' (Inr 0),
                DriverCloseEv 0,
                NewSessionEv 0 0,
                RunEv 0 ''CREATE (test:Test) return true'' ()
                  (Inl ''Trying to create session on closed driver''),
                VerifyConnectivityEv 0 (Some ''Trying to create session on closed driver''),
                NewDriverWithContextEv ''neo4j://localhost'' ''neo4j'' ''letmein!'' (Inr 1),
                DriverCloseEv 0]"
              1 7 accepting
              "[NewDriverWithContextEv ''neo4j://localhost'' ''neo4j'' ''letmein!'' (Inr 0),
                DriverCloseEv 0,
                NewSessionEv 0 0,
                RunEv 0 ''CREATE (test:Test) return true'' ()
                  (Inl ''Trying to create session on closed driver''),
                VerifyConnectivityEv 0 (Some ''Trying to create session on closed driver''),
                NewDriverWithContextEv ''neo4j://localhost'' ''neo4j'' ''letmein!'' (Inr 1),
                DriverCloseEv 0,
                NewSessionEv 1 1, RunEv 1 ''CREATE (test:Test) return true'' () (Inr 7),
                OnResultsEv 7 (HookReturns None), SessionCloseEv 1, SessionCloseEv 0]"]
  by (simp add: script_defs accepting_def)

end
